theory Spec2Isabelle
  imports Main "HOL-Library.Word"
begin

section \<open>The main-memory allocator of the Impala port\<close>

text \<open>
  The file embeds the live code of \<^verbatim>\<open>Allocator_impl.hpp\<close> (namespace
  \<^verbatim>\<open>madlib::dbconnector::mainmem\<close>): \<^verbatim>\<open>allocate\<close>, \<^verbatim>\<open>reallocate\<close>,
  \<^verbatim>\<open>free\<close>, \<^verbatim>\<open>internalAllocateArray\<close>, the \<^verbatim>\<open>allocateArray\<close> overloads
  and \<^verbatim>\<open>allocateByteString\<close>. Everything between \<^verbatim>\<open>#if 0\<close> and
  \<^verbatim>\<open>#endif\<close> (\<^verbatim>\<open>internalPalloc\<close>, \<^verbatim>\<open>internalRePalloc\<close>,
  \<^verbatim>\<open>makeAligned\<close>, \<^verbatim>\<open>unaligned\<close>, \<^verbatim>\<open>internalAllocate\<close> and the
  guarded body of \<^verbatim>\<open>free\<close>) is not compiled and is not part of the model.
\<close>

subsection \<open>Machine types\<close>

text \<open>
  \<^verbatim>\<open>std::size_t\<close> and pointers are 64-bit unsigned words (an LP64 target);
  multiplication and addition wrap around, as unsigned arithmetic does in C++.
  The null pointer is the address 0. \<^verbatim>\<open>int\<close> is a 32-bit word read with
  \<^term>\<open>sint\<close>.
\<close>

type_synonym size_t = "64 word"
type_synonym addr = "64 word"
type_synonym c_int = "32 word"

abbreviation (input) NULL :: addr where
  "NULL \<equiv> 0"

subsection \<open>Policy tags\<close>

text \<open>
  The three template parameters of every operation. The enumerations live in
  \<^verbatim>\<open>dbal\<close>; the source names \<^verbatim>\<open>FunctionContext\<close>, \<^verbatim>\<open>DoZero\<close>,
  \<^verbatim>\<open>ThrowBadAlloc\<close> and (in a comment) \<^verbatim>\<open>ReturnNULL\<close>; the remaining
  alternative of each enumeration stands for every other value.
\<close>

datatype MemoryContext = FunctionContext | AggregateContext

datatype ZeroMemory = DoZero | DoNotZero

datatype OnMemoryAllocationFailure = ReturnNULL | ThrowBadAlloc

subsection \<open>The host allocator\<close>

text \<open>
  The member \<^verbatim>\<open>alloc\<close> is the host's allocator, with the three primitives
  \<^verbatim>\<open>Allocate(size)\<close>, \<^verbatim>\<open>Realloc(ptr, size)\<close> and \<^verbatim>\<open>Free(ptr)\<close>. Its
  class is not in the source at hand, and nothing is assumed of it. It is
  opaque: a primitive returns a pointer (possibly null) or raises a signal of the
  host. A host is a function from the calls made so far and the present call to
  its reply, which covers every deterministic host. The state threaded through
  the allocator is the list of host calls made so far, oldest first.
\<close>

datatype host_call = Allocate size_t | Realloc addr size_t | Free addr

datatype host_reply = Returns addr | Raises nat

type_synonym host = "host_call list \<Rightarrow> host_call \<Rightarrow> host_reply"

text \<open>
  How an operation can end other than by returning: the two errors the
  specification names (\<^verbatim>\<open>std::bad_alloc\<close> in the disabled code), a signal raised
  by the host that leaves the operation, and a write through a null pointer.
\<close>

datatype failure = OverflowError | AllocationError | HostSignal nat | NullDereference

definition call_host :: "host \<Rightarrow> host_call \<Rightarrow> host_call list \<Rightarrow> (failure + addr) \<times> host_call list" where
  "call_host h c tr =
     (case h tr c of
        Returns p \<Rightarrow> (Inr p, tr @ [c])
      | Raises n \<Rightarrow> (Inl (HostSignal n), tr @ [c]))"

subsection \<open>allocate, reallocate, free\<close>

text \<open>
  \<^verbatim>\<open>template <MC, ZM, F> void* Allocator::allocate(size_t inSize) const
  { return alloc.Allocate(inSize); }\<close>
\<close>

definition allocate ::
  "MemoryContext \<Rightarrow> ZeroMemory \<Rightarrow> OnMemoryAllocationFailure \<Rightarrow> host \<Rightarrow> size_t \<Rightarrow>
   host_call list \<Rightarrow> (failure + addr) \<times> host_call list" where
  "allocate MC ZM F h inSize tr = call_host h (Allocate inSize) tr"

text \<open>
  \<^verbatim>\<open>template <MC, ZM, F> void* Allocator::reallocate(void* inPtr, const size_t inSize) const
  { return alloc.Realloc(inPtr, inSize); }\<close>
\<close>

definition reallocate ::
  "MemoryContext \<Rightarrow> ZeroMemory \<Rightarrow> OnMemoryAllocationFailure \<Rightarrow> host \<Rightarrow> addr \<Rightarrow> size_t \<Rightarrow>
   host_call list \<Rightarrow> (failure + addr) \<times> host_call list" where
  "reallocate MC ZM F h inPtr inSize tr = call_host h (Realloc inPtr inSize) tr"

text \<open>
  \<^verbatim>\<open>template <MC> void Allocator::free(void* inPtr) const
  { if (inPtr == NULL) return; alloc.Free(inPtr); }\<close>
  The value \<^verbatim>\<open>Free\<close> returns is discarded.
\<close>

definition free ::
  "MemoryContext \<Rightarrow> host \<Rightarrow> addr \<Rightarrow> host_call list \<Rightarrow> (failure + unit) \<times> host_call list" where
  "free MC h inPtr tr =
     (if inPtr = NULL then (Inr (), tr)
      else (case call_host h (Free inPtr) tr of
              (Inl e, tr') \<Rightarrow> (Inl e, tr')
            | (Inr _, tr') \<Rightarrow> (Inr (), tr')))"

subsection \<open>Array layout\<close>

text \<open>
  The struct \<^verbatim>\<open>ArrayType\<close> and the macros \<^verbatim>\<open>ARR_OVERHEAD_NONULLS\<close> and
  \<^verbatim>\<open>ARR_DIMS\<close> are declared outside the source at hand, so the size of the
  struct and the header overhead are parameters of the model. The fields are the
  ones \<^verbatim>\<open>internalAllocateArray\<close> writes: \<^verbatim>\<open>len\<close>, \<^verbatim>\<open>ndims\<close>,
  \<^verbatim>\<open>ptr\<close> and the \<^verbatim>\<open>int\<close> entries behind \<^verbatim>\<open>ARR_DIMS(array)\<close>.
\<close>

record layout =
  sizeof_ArrayType :: size_t
  ARR_OVERHEAD_NONULLS :: "nat \<Rightarrow> size_t"

record ArrayType =
  len :: size_t
  ndims :: nat
  ptr :: addr
  ARR_DIMS :: "c_int list"

text \<open>
  \<^verbatim>\<open>MutableArrayHandle<T>(array)\<close> wraps the pointer \<^verbatim>\<open>array\<close>; the model
  keeps the pointer together with the header the code has written through it.
\<close>

record MutableArrayHandle =
  handle_array :: addr
  handle_header :: ArrayType

text \<open>
  Lines 70 to 72:
  \<^verbatim>\<open>std::size_t numElements = Dimensions ? 1 : 0;
  for (std::size_t i = 0; i < Dimensions; ++i) numElements *= inNumElements[i];\<close>
  \<^verbatim>\<open>Dimensions\<close> is the length of the \<^verbatim>\<open>std::array\<close>.
\<close>

definition numElements_of :: "size_t list \<Rightarrow> size_t" where
  "numElements_of inNumElements =
     foldl (\<lambda>numElements d. numElements * d)
       (if length inNumElements \<noteq> 0 then 1 else 0) inNumElements"

text \<open>
  Lines 86 and 87:
  \<^verbatim>\<open>std::size_t size = sizeof(T) * numElements + ARR_OVERHEAD_NONULLS(Dimensions);\<close>
  The check in front of it (lines 80 to 84) is commented out.
\<close>

definition array_size :: "size_t \<Rightarrow> layout \<Rightarrow> size_t list \<Rightarrow> size_t" where
  "array_size sizeof_T L inNumElements =
     sizeof_T * numElements_of inNumElements
       + ARR_OVERHEAD_NONULLS L (length inNumElements)"

text \<open>
  \<^verbatim>\<open>internalAllocateArray<T, Dimensions, MC, ZM, F>(inNumElements)\<close>, lines 63 to
  110. The block comes from \<^verbatim>\<open>allocate<MC, dbal::DoZero, F>(size)\<close>; the result
  is written through without a test, so a null block is a write through the null
  pointer. \<^verbatim>\<open>&array[1]\<close> is the address one \<^verbatim>\<open>ArrayType\<close> past the block
  start, and \<^verbatim>\<open>static_cast<int>\<close> keeps the low 32 bits of a dimension size.

  The body is written over its callee, so that the template arguments it passes
  to \<^verbatim>\<open>allocate\<close> can be told from the ones it was given;
  \<^verbatim>\<open>internalAllocateArray\<close> is the body over \<^const>\<open>allocate\<close>.
\<close>

type_synonym allocate_fn =
  "MemoryContext \<Rightarrow> ZeroMemory \<Rightarrow> OnMemoryAllocationFailure \<Rightarrow> host \<Rightarrow> size_t \<Rightarrow>
   host_call list \<Rightarrow> (failure + addr) \<times> host_call list"

definition internalAllocateArray_via ::
  "allocate_fn \<Rightarrow> size_t \<Rightarrow> layout \<Rightarrow> MemoryContext \<Rightarrow> ZeroMemory \<Rightarrow>
   OnMemoryAllocationFailure \<Rightarrow> host \<Rightarrow> size_t list \<Rightarrow> host_call list \<Rightarrow>
   (failure + MutableArrayHandle) \<times> host_call list" where
  "internalAllocateArray_via callee sizeof_T L MC ZM F h inNumElements tr =
     (let numElements = numElements_of inNumElements;
          size = array_size sizeof_T L inNumElements
      in case callee MC DoZero F h size tr of
           (Inl e, tr') \<Rightarrow> (Inl e, tr')
         | (Inr array, tr') \<Rightarrow>
             if array = NULL then (Inl NullDereference, tr')
             else (Inr \<lparr>handle_array = array,
                        handle_header =
                          \<lparr>len = numElements,
                           ndims = length inNumElements,
                           ptr = array + sizeof_ArrayType L,
                           ARR_DIMS = map ucast inNumElements\<rparr>\<rparr>, tr'))"

definition internalAllocateArray ::
  "size_t \<Rightarrow> layout \<Rightarrow> MemoryContext \<Rightarrow> ZeroMemory \<Rightarrow> OnMemoryAllocationFailure \<Rightarrow> host \<Rightarrow>
   size_t list \<Rightarrow> host_call list \<Rightarrow> (failure + MutableArrayHandle) \<times> host_call list" where
  "internalAllocateArray sizeof_T L MC ZM F h inNumElements tr =
     internalAllocateArray_via allocate sizeof_T L MC ZM F h inNumElements tr"

text \<open>
  The \<^verbatim>\<open>allocateArray\<close> overloads (lines 19 to 48) are generated for one to
  \<^verbatim>\<open>MADLIB_MAX_ARRAY_DIMS\<close> arguments; the constant is defined elsewhere and is
  a parameter here. \<^const>\<open>None\<close> stands for a call no overload accepts. The first
  overload fixes the policy, the second takes it from the caller.
\<close>

definition allocateArray_default ::
  "nat \<Rightarrow> size_t \<Rightarrow> layout \<Rightarrow> host \<Rightarrow> size_t list \<Rightarrow> host_call list \<Rightarrow>
   ((failure + MutableArrayHandle) \<times> host_call list) option" where
  "allocateArray_default MADLIB_MAX_ARRAY_DIMS sizeof_T L h inDims tr =
     (if 1 \<le> length inDims \<and> length inDims \<le> MADLIB_MAX_ARRAY_DIMS
      then Some (internalAllocateArray sizeof_T L FunctionContext DoZero ThrowBadAlloc h inDims tr)
      else None)"

definition allocateArray ::
  "nat \<Rightarrow> size_t \<Rightarrow> layout \<Rightarrow> MemoryContext \<Rightarrow> ZeroMemory \<Rightarrow> OnMemoryAllocationFailure \<Rightarrow>
   host \<Rightarrow> size_t list \<Rightarrow> host_call list \<Rightarrow>
   ((failure + MutableArrayHandle) \<times> host_call list) option" where
  "allocateArray MADLIB_MAX_ARRAY_DIMS sizeof_T L MC ZM F h inDims tr =
     (if 1 \<le> length inDims \<and> length inDims \<le> MADLIB_MAX_ARRAY_DIMS
      then Some (internalAllocateArray sizeof_T L MC ZM F h inDims tr)
      else None)"

subsection \<open>Byte strings\<close>

text \<open>
  Modelled from the spec: the class \<^verbatim>\<open>MutableByteString\<close> is not in the
  source at hand. The specification describes the handle as a pointer to the
  header, a pointer to the payload start and a payload length.
\<close>

record MutableByteString_handle =
  bs_header :: addr
  bs_payload :: addr
  bs_length :: size_t

text \<open>
  Modelled from the spec: the constructor of \<^verbatim>\<open>MutableByteString\<close> is not
  in the source at hand. The specification lays a byte-string block out as a
  header of \<^verbatim>\<open>kEffectiveHeaderSize\<close> bytes followed by the payload of the
  declared length. The constructor is given the block and the size of the whole
  block, so the payload starts \<^verbatim>\<open>kEffectiveHeaderSize\<close> bytes into the block
  and its length is the block size less the header.
\<close>

definition MutableByteString :: "size_t \<Rightarrow> addr \<Rightarrow> size_t \<Rightarrow> MutableByteString_handle" where
  "MutableByteString kEffectiveHeaderSize byteString inTotalSize =
     \<lparr>bs_header = byteString,
      bs_payload = byteString + kEffectiveHeaderSize,
      bs_length = inTotalSize - kEffectiveHeaderSize\<rparr>"

text \<open>
  \<^verbatim>\<open>allocateByteString<MC, ZM, F>(inSize)\<close>, lines 151 to 163. The constant
  \<^verbatim>\<open>ByteString::kEffectiveHeaderSize\<close> is a parameter. The block is not
  tested before the handle is built, and nothing is written through it. As for
  arrays, the body is written over its callee and
  \<^verbatim>\<open>allocateByteString\<close> is the body over \<^const>\<open>allocate\<close>.
\<close>

definition allocateByteString_via ::
  "allocate_fn \<Rightarrow> size_t \<Rightarrow> MemoryContext \<Rightarrow> ZeroMemory \<Rightarrow> OnMemoryAllocationFailure \<Rightarrow>
   host \<Rightarrow> size_t \<Rightarrow> host_call list \<Rightarrow>
   (failure + MutableByteString_handle) \<times> host_call list" where
  "allocateByteString_via callee kEffectiveHeaderSize MC ZM F h inSize tr =
     (case callee MC DoZero F h (kEffectiveHeaderSize + inSize) tr of
        (Inl e, tr') \<Rightarrow> (Inl e, tr')
      | (Inr byteString, tr') \<Rightarrow>
          (Inr (MutableByteString kEffectiveHeaderSize byteString
                  (kEffectiveHeaderSize + inSize)), tr'))"

definition allocateByteString ::
  "size_t \<Rightarrow> MemoryContext \<Rightarrow> ZeroMemory \<Rightarrow> OnMemoryAllocationFailure \<Rightarrow> host \<Rightarrow> size_t \<Rightarrow>
   host_call list \<Rightarrow> (failure + MutableByteString_handle) \<times> host_call list" where
  "allocateByteString kEffectiveHeaderSize MC ZM F h inSize tr =
     allocateByteString_via allocate kEffectiveHeaderSize MC ZM F h inSize tr"

subsection \<open>A callee that reads its tag\<close>

text \<open>
  A callee that tells the zero-fill tags apart: it asks the host for one byte
  more under \<^const>\<open>DoNotZero\<close>. It stands for any \<^verbatim>\<open>allocate\<close> that reads
  its tag.
\<close>

definition allocate_reading_ZM :: allocate_fn where
  "allocate_reading_ZM MC ZM F h inSize tr =
     call_host h (Allocate (if ZM = DoZero then inSize else inSize + 1)) tr"

subsection \<open>The bytes of a block\<close>




subsection \<open>What the specification says, for comparison\<close>

text \<open>
  The element count in the specification's words: the product of the
  per-dimension sizes, and 0 when there is no dimension.
\<close>

definition spec_element_count :: "nat list \<Rightarrow> nat" where
  "spec_element_count sizes = (if sizes = [] then 0 else prod_list sizes)"

text \<open>
  Modelled from the spec: the header size, a fixed overhead plus one metadata
  entry per dimension. The macro \<^verbatim>\<open>ARR_OVERHEAD_NONULLS\<close> is not in the source
  at hand; this is the shape the specification gives it.
\<close>

definition spec_header_size :: "nat \<Rightarrow> nat \<Rightarrow> nat \<Rightarrow> size_t" where
  "spec_header_size fixed_overhead per_dimension D = of_nat (fixed_overhead + D * per_dimension)"

text \<open>
  A layout for concrete runs: an \<^verbatim>\<open>ArrayType\<close> of 24 bytes (a
  \<^verbatim>\<open>size_t\<close>, an \<^verbatim>\<open>int\<close> with padding and a pointer) and 8 bytes of
  metadata per dimension.
\<close>

definition example_layout :: layout where
  "example_layout = \<lparr>sizeof_ArrayType = 24, ARR_OVERHEAD_NONULLS = spec_header_size 24 8\<rparr>"

text \<open>Hosts for concrete runs.\<close>

definition host_returning :: "addr \<Rightarrow> host" where
  "host_returning p tr c = Returns p"

definition host_raising :: "nat \<Rightarrow> host" where
  "host_raising n tr c = Raises n"

section \<open>Properties\<close>

subsection \<open>Auxiliary facts\<close>

text \<open>The builders with their callee put in.\<close>

lemma internalAllocateArray_unfold:
  "internalAllocateArray sizeof_T L MC ZM F h inNumElements tr =
     (let numElements = numElements_of inNumElements;
          size = array_size sizeof_T L inNumElements
      in case allocate MC DoZero F h size tr of
           (Inl e, tr') \<Rightarrow> (Inl e, tr')
         | (Inr array, tr') \<Rightarrow>
             if array = NULL then (Inl NullDereference, tr')
             else (Inr \<lparr>handle_array = array,
                        handle_header =
                          \<lparr>len = numElements,
                           ndims = length inNumElements,
                           ptr = array + sizeof_ArrayType L,
                           ARR_DIMS = map ucast inNumElements\<rparr>\<rparr>, tr'))"
  by (simp add: internalAllocateArray_def internalAllocateArray_via_def)

lemma allocateByteString_unfold:
  "allocateByteString kEffectiveHeaderSize MC ZM F h inSize tr =
     (case allocate MC DoZero F h (kEffectiveHeaderSize + inSize) tr of
        (Inl e, tr') \<Rightarrow> (Inl e, tr')
      | (Inr byteString, tr') \<Rightarrow>
          (Inr (MutableByteString kEffectiveHeaderSize byteString
                  (kEffectiveHeaderSize + inSize)), tr'))"
  by (simp add: allocateByteString_def allocateByteString_via_def)

lemmas run_defs =
  internalAllocateArray_unfold allocateArray_def allocateArray_default_def array_size_def
  numElements_of_def allocate_def reallocate_def free_def call_host_def host_returning_def
  host_raising_def example_layout_def spec_header_size_def allocateByteString_unfold
  MutableByteString_def spec_element_count_def

lemma unat_of_nat_small:
  assumes "n < 2 ^ 64"
  shows "unat (of_nat n :: size_t) = n"
proof -
  have "unat (of_nat n :: size_t) = n mod 2 ^ LENGTH(64)"
    by (rule unat_of_nat)
  with assms show ?thesis by simp
qed


text \<open>
  The loop computes the product of the sizes modulo \<open>2 ^ 64\<close>, whatever the
  intermediate products are.
\<close>

lemma foldl_mult_of_nat:
  "foldl (\<lambda>n d. n * d) (a :: size_t) ds = of_nat (unat a * prod_list (map unat ds))"
  by (induction ds arbitrary: a) (simp_all add: mult.assoc)

lemma numElements_of_eq:
  "numElements_of ds = of_nat (spec_element_count (map unat ds))"
  by (cases ds) (simp_all add: numElements_of_def spec_element_count_def foldl_mult_of_nat)

lemma array_size_eq:
  "array_size sizeof_T L ds =
     of_nat (unat (ARR_OVERHEAD_NONULLS L (length ds))
             + spec_element_count (map unat ds) * unat sizeof_T)"
  by (simp add: array_size_def numElements_of_eq mult.commute add.commute)

text \<open>
  Every run of \<^const>\<open>internalAllocateArray\<close> makes exactly one host call, with
  the size computed in wrapping arithmetic, and ends in one of three ways.
\<close>

lemma internalAllocateArray_calls:
  "snd (internalAllocateArray sizeof_T L MC ZM F h ds tr)
     = tr @ [Allocate (array_size sizeof_T L ds)]"
  by (simp add: internalAllocateArray_unfold allocate_def call_host_def Let_def
      split: host_reply.splits)

lemma internalAllocateArray_result:
  "fst (internalAllocateArray sizeof_T L MC ZM F h ds tr) =
     (case h tr (Allocate (array_size sizeof_T L ds)) of
        Raises n \<Rightarrow> Inl (HostSignal n)
      | Returns p \<Rightarrow>
          if p = NULL then Inl NullDereference
          else Inr \<lparr>handle_array = p,
                    handle_header = \<lparr>len = numElements_of ds, ndims = length ds,
                      ptr = p + sizeof_ArrayType L, ARR_DIMS = map ucast ds\<rparr>\<rparr>)"
  by (simp add: internalAllocateArray_unfold allocate_def call_host_def Let_def
      split: host_reply.splits)

lemma internalAllocateArray_no_OverflowError:
  "fst (internalAllocateArray sizeof_T L MC ZM F h ds tr) \<noteq> Inl OverflowError"
  by (simp add: internalAllocateArray_result split: host_reply.splits)

lemma allocateArray_Some:
  assumes "allocateArray maxd sizeof_T L MC ZM F h ds tr = Some r"
  shows "r = internalAllocateArray sizeof_T L MC ZM F h ds tr"
  using assms by (simp add: allocateArray_def split: if_splits)

text \<open>
  \<^const>\<open>allocate\<close> and \<^const>\<open>reallocate\<close> hand back what the host replied;
  no path raises \<^const>\<open>AllocationError\<close>.
\<close>

lemma allocate_result:
  "allocate MC ZM F h n tr =
     (case h tr (Allocate n) of
        Returns p \<Rightarrow> (Inr p, tr @ [Allocate n])
      | Raises k \<Rightarrow> (Inl (HostSignal k), tr @ [Allocate n]))"
  by (simp add: allocate_def call_host_def)

lemma allocate_no_AllocationError:
  "fst (allocate MC ZM F h n tr) \<noteq> Inl AllocationError"
  by (simp add: allocate_result split: host_reply.splits)

lemma reallocate_no_AllocationError:
  "fst (reallocate MC ZM F h p n tr) \<noteq> Inl AllocationError"
  by (simp add: reallocate_def call_host_def split: host_reply.splits)

lemma free_host_raises:
  assumes "p \<noteq> NULL" and "h tr (Free p) = Raises k"
  shows "free MC h p tr = (Inl (HostSignal k), tr @ [Free p])"
  using assms by (simp add: free_def call_host_def)

text \<open>With no dimension the count is 0 and the size is the bare header.\<close>

lemma internalAllocateArray_no_dimensions:
  "numElements_of [] = 0 \<and> array_size sizeof_T L [] = ARR_OVERHEAD_NONULLS L 0"
  by (simp add: numElements_of_def array_size_def)

subsection \<open>Overflow of the array size\<close>

text \<open>
  C1. Three runs in which the true size exceeds the largest \<^verbatim>\<open>size_t\<close>: the
  product \<open>N * sizeof(T)\<close> overflows (one dimension of \<open>2 ^ 61 + 1\<close> elements
  of 8 bytes), the running product overflows (two dimensions of \<open>2 ^ 32\<close>), and
  the sum with the header overflows (\<open>2 ^ 64 - 1\<close> elements of 1 byte). In each
  the size wraps around, the host's \<^verbatim>\<open>Allocate\<close> is called once with the
  wrapped size (40, 40 and 31 bytes), and a handle is returned: no
  \<^const>\<open>OverflowError\<close>, and one host invocation instead of none.
\<close>

theorem internalAllocateArray_overflow_wraps:
  "internalAllocateArray 8 example_layout FunctionContext DoZero ThrowBadAlloc
      (host_returning 4096) [2305843009213693953] [] =
     (Inr \<lparr>handle_array = 4096,
            handle_header =
              \<lparr>len = 2305843009213693953, ndims = 1, ptr = 4120, ARR_DIMS = [1]\<rparr>\<rparr>,
      [Allocate 40])
   \<and> internalAllocateArray 8 example_layout FunctionContext DoZero ThrowBadAlloc
      (host_returning 4096) [4294967296, 4294967296] [] =
     (Inr \<lparr>handle_array = 4096,
            handle_header = \<lparr>len = 0, ndims = 2, ptr = 4120, ARR_DIMS = [0, 0]\<rparr>\<rparr>,
      [Allocate 40])
   \<and> internalAllocateArray 1 example_layout FunctionContext DoZero ThrowBadAlloc
      (host_returning 4096) [18446744073709551615] [] =
     (Inr \<lparr>handle_array = 4096,
            handle_header =
              \<lparr>len = 18446744073709551615, ndims = 1, ptr = 4120,
               ARR_DIMS = [4294967295]\<rparr>\<rparr>,
      [Allocate 31])"
  by (simp add: run_defs)

subsection \<open>The size requested for an array\<close>

text \<open>
  C2. For every number of dimensions (zero included), every element size of at
  least one byte and all dimension sizes whose true byte size
  \<open>H(D) + N * sizeof(T)\<close> is below \<open>2 ^ 64\<close>: the element count the code
  computes is the product of the sizes (0 when there is no dimension),
  \<^const>\<open>internalAllocateArray\<close> makes exactly one request, and the size it
  requests is exactly \<open>H(D) + N * sizeof(T)\<close>, where \<open>H(D)\<close> is
  \<^verbatim>\<open>ARR_OVERHEAD_NONULLS(D)\<close>.
\<close>

theorem internalAllocateArray_requests_exact_size:
  assumes E: "0 < unat sizeof_T"
    and fits: "unat (ARR_OVERHEAD_NONULLS L (length ds))
                 + spec_element_count (map unat ds) * unat sizeof_T < 2 ^ 64"
  shows "unat (numElements_of ds) = spec_element_count (map unat ds)
     \<and> snd (internalAllocateArray sizeof_T L MC ZM F h ds tr)
         = tr @ [Allocate (array_size sizeof_T L ds)]
     \<and> unat (array_size sizeof_T L ds)
         = unat (ARR_OVERHEAD_NONULLS L (length ds))
             + spec_element_count (map unat ds) * unat sizeof_T"
proof -
  let ?N = "spec_element_count (map unat ds)"
  have "?N \<le> ?N * unat sizeof_T"
    using E by simp
  with fits have N: "?N < 2 ^ 64" by linarith
  have "unat (numElements_of ds) = ?N"
    unfolding numElements_of_eq using N by (simp only: unat_of_nat_small)
  moreover have "unat (array_size sizeof_T L ds)
         = unat (ARR_OVERHEAD_NONULLS L (length ds)) + ?N * unat sizeof_T"
    unfolding array_size_eq using fits by (simp only: unat_of_nat_small)
  ultimately show ?thesis
    by (simp only: internalAllocateArray_calls simp_thms)
qed

text \<open>
  The run of the specification's example: two dimensions of 3 and 4 elements of
  4 bytes. The count is 12 and the one request is for \<open>H(2) + 12 * 4 = 88\<close>
  bytes.
\<close>

theorem internalAllocateArray_requests_exact_size_witness:
  "0 < unat (4 :: size_t)
   \<and> unat (ARR_OVERHEAD_NONULLS example_layout (length [3, 4 :: size_t]))
       + spec_element_count (map unat [3, 4 :: size_t]) * unat (4 :: size_t) < 2 ^ 64
   \<and> unat (numElements_of [3, 4]) = 12
   \<and> snd (internalAllocateArray 4 example_layout FunctionContext DoZero ThrowBadAlloc
            (host_returning 4096) [3, 4] []) = [Allocate 88]
   \<and> unat (array_size 4 example_layout [3, 4]) = 40 + 12 * 4"
proof -
  have E: "0 < unat (4 :: size_t)"
    by simp
  have fits: "unat (ARR_OVERHEAD_NONULLS example_layout (length [3, 4 :: size_t]))
       + spec_element_count (map unat [3, 4 :: size_t]) * unat (4 :: size_t) < 2 ^ 64"
    by (simp add: run_defs)
  show ?thesis
    using E fits
      internalAllocateArray_requests_exact_size [OF E fits,
        of FunctionContext DoZero ThrowBadAlloc "host_returning 4096" "[]"]
    by (simp add: run_defs)
qed

subsection \<open>Alignment\<close>

text \<open>
  C3. A host whose \<^verbatim>\<open>Allocate\<close> returns the address 4097, one byte past a
  16-byte boundary: \<^const>\<open>allocate\<close> returns 4097 unchanged, and the block of
  the array handle and of the byte-string handle starts at 4097 as well. The
  documentation of \<^verbatim>\<open>allocate\<close> promises a 16-byte aligned address.
\<close>

theorem allocate_keeps_host_alignment:
  "allocate FunctionContext DoZero ThrowBadAlloc (host_returning 4097) 8 [] =
     (Inr 4097, [Allocate 8])
   \<and> unat (4097 :: addr) mod 16 = 1
   \<and> allocateArray 2 4 example_layout FunctionContext DoZero ThrowBadAlloc
       (host_returning 4097) [3, 4] [] =
     Some (Inr \<lparr>handle_array = 4097,
                 handle_header = \<lparr>len = 12, ndims = 2, ptr = 4121, ARR_DIMS = [3, 4]\<rparr>\<rparr>,
           [Allocate 88])
   \<and> allocateByteString 4 FunctionContext DoZero ThrowBadAlloc (host_returning 4097) 8 [] =
     (Inr \<lparr>bs_header = 4097, bs_payload = 4101, bs_length = 8\<rparr>, [Allocate 12])"
  by (simp add: run_defs)

subsection \<open>free\<close>

text \<open>
  C4. A host whose \<^verbatim>\<open>Free\<close> raises a signal: \<^const>\<open>free\<close> of the non-null
  pointer 4096 calls the host and ends with that signal, which leaves the
  function. The documentation of \<^verbatim>\<open>free\<close> says it must not throw.
\<close>

theorem free_propagates_host_signal:
  "free FunctionContext (host_raising 1) 4096 [] = (Inl (HostSignal 1), [Free 4096])"
  by (simp add: run_defs)

text \<open>
  C8. \<^verbatim>\<open>free\<close> applied to the null pointer returns at once: it ends normally
  and the list of host calls is the one it started with, so the host's
  \<^verbatim>\<open>Free\<close> is not invoked, whatever the memory context and the host.
\<close>

theorem free_null_is_noop: "free MC h NULL tr = (Inr (), tr)"
  by (simp add: free_def)

subsection \<open>The header of an array\<close>




text \<open>
  Line 102: when \<^const>\<open>allocateArray\<close> returns a handle, the block is the
  non-null address the host returned, and the payload pointer is the block start
  plus the size of the struct \<^verbatim>\<open>ArrayType\<close> (the address of
  \<^verbatim>\<open>array[1]\<close>), the same for every dimensionality.
\<close>

lemma allocateArray_payload_pointer:
  assumes ok: "allocateArray maxd sizeof_T L MC ZM F h ds tr = Some (Inr a, tr')"
  shows "h tr (Allocate (array_size sizeof_T L ds)) = Returns (handle_array a)
     \<and> handle_array a \<noteq> NULL
     \<and> ptr (handle_header a) = handle_array a + sizeof_ArrayType L"
proof -
  from ok have "fst (internalAllocateArray sizeof_T L MC ZM F h ds tr) = Inr a"
    by (simp add: allocateArray_def split: if_splits)
  then show ?thesis
    by (auto simp: internalAllocateArray_result split: host_reply.splits if_splits)
qed

text \<open>
  The payload starts at the end of the header the block was sized with exactly
  when that header is as large as the struct, whatever the macro is.
\<close>

lemma allocateArray_payload_at_header_iff:
  assumes ok: "allocateArray maxd sizeof_T L MC ZM F h ds tr = Some (Inr a, tr')"
  shows "(ptr (handle_header a) = handle_array a + ARR_OVERHEAD_NONULLS L (length ds))
     = (ARR_OVERHEAD_NONULLS L (length ds) = sizeof_ArrayType L)"
proof -
  have "ptr (handle_header a) = handle_array a + sizeof_ArrayType L"
    using allocateArray_payload_pointer [OF ok] by simp
  then show ?thesis
    by (auto simp: eq_commute)
qed

text \<open>
  Two dimensionalities over one layout get the same payload offset, so a header
  overhead that differs between them is missed for at least one of the two.
\<close>

lemma allocateArray_payload_offset_fixed:
  assumes ok1: "allocateArray maxd sizeof_T L MC ZM F h ds1 tr1 = Some (Inr a1, tr1')"
    and ok2: "allocateArray maxd sizeof_T L MC ZM F h ds2 tr2 = Some (Inr a2, tr2')"
    and differ: "ARR_OVERHEAD_NONULLS L (length ds1) \<noteq> ARR_OVERHEAD_NONULLS L (length ds2)"
  shows "\<not> (ptr (handle_header a1) = handle_array a1 + ARR_OVERHEAD_NONULLS L (length ds1)
           \<and> ptr (handle_header a2) = handle_array a2 + ARR_OVERHEAD_NONULLS L (length ds2))"
  using differ
  by (auto simp: allocateArray_payload_at_header_iff [OF ok1]
      allocateArray_payload_at_header_iff [OF ok2])


subsection \<open>Byte strings\<close>

text \<open>
  C7, as amended. For every header size and every size \<open>s\<close> whose sum with
  \<^verbatim>\<open>kEffectiveHeaderSize\<close> is below \<open>2 ^ 64\<close>: \<^const>\<open>allocateByteString\<close>
  makes exactly one request, for exactly \<^verbatim>\<open>kEffectiveHeaderSize\<close> plus \<open>s\<close>
  bytes; when the host raises, the signal leaves the function; otherwise the
  handle over the returned block has its payload \<^verbatim>\<open>kEffectiveHeaderSize\<close>
  bytes into the block and the payload length \<open>s\<close>.
\<close>

theorem allocateByteString_request_and_length:
  assumes fits: "unat k + unat s < 2 ^ 64"
  shows "snd (allocateByteString k MC ZM F h s tr) = tr @ [Allocate (k + s)]
     \<and> unat (k + s) = unat k + unat s
     \<and> fst (allocateByteString k MC ZM F h s tr) =
         (case h tr (Allocate (k + s)) of
            Raises n \<Rightarrow> Inl (HostSignal n)
          | Returns p \<Rightarrow> Inr \<lparr>bs_header = p, bs_payload = p + k, bs_length = s\<rparr>)"
proof -
  have "unat (k + s) = unat k + unat s"
    using fits by (simp add: unat_add_lem [THEN iffD1])
  then show ?thesis
    by (simp add: allocateByteString_unfold allocate_def call_host_def MutableByteString_def
        split: host_reply.splits)
qed

text \<open>
  The specification's example: a byte string of size 0 over a header of 4 bytes.
  The block requested is exactly the header, and the payload length is 0.
\<close>

theorem allocateByteString_request_and_length_witness:
  "unat (4 :: size_t) + unat (0 :: size_t) < 2 ^ 64
   \<and> snd (allocateByteString 4 FunctionContext DoZero ThrowBadAlloc (host_returning 4096) 0 [])
       = [Allocate 4]
   \<and> fst (allocateByteString 4 FunctionContext DoZero ThrowBadAlloc (host_returning 4096) 0 [])
       = Inr \<lparr>bs_header = 4096, bs_payload = 4100, bs_length = 0\<rparr>"
proof -
  have fits: "unat (4 :: size_t) + unat (0 :: size_t) < 2 ^ 64"
    by simp
  show ?thesis
    using fits
      allocateByteString_request_and_length [OF fits,
        of FunctionContext DoZero ThrowBadAlloc "host_returning 4096" "[]"]
    by (simp add: host_returning_def)
qed

text \<open>
  Where C7 fails as stated: the size \<open>2 ^ 64 - 1\<close> over a header of 4 bytes.
  The sum wraps around and the request is for 3 bytes, fewer than the header.
\<close>

theorem allocateByteString_request_wraps:
  "allocateByteString 4 FunctionContext DoZero ThrowBadAlloc (host_returning 4096)
       18446744073709551615 [] =
     (Inr \<lparr>bs_header = 4096, bs_payload = 4100, bs_length = 18446744073709551615\<rparr>,
      [Allocate 3])"
  by (simp add: run_defs)

subsection \<open>The failure policy\<close>

text \<open>
  C9. A host whose primitives fail by returning null, under the policy
  \<^const>\<open>ThrowBadAlloc\<close>: \<^const>\<open>allocate\<close> and \<^const>\<open>reallocate\<close> return the
  null pointer and raise nothing, \<^const>\<open>allocateByteString\<close> returns a handle
  over the null block, and \<^const>\<open>internalAllocateArray\<close> writes the header
  through the null pointer. Under \<^const>\<open>ReturnNULL\<close> a host that fails by
  raising has its signal leave \<^const>\<open>allocate\<close>.
\<close>

theorem allocate_ignores_failure_policy:
  "allocate FunctionContext DoZero ThrowBadAlloc (host_returning NULL) 8 [] =
     (Inr NULL, [Allocate 8])
   \<and> reallocate FunctionContext DoZero ThrowBadAlloc (host_returning NULL) 4096 8 [] =
     (Inr NULL, [Realloc 4096 8])
   \<and> allocateByteString 4 FunctionContext DoZero ThrowBadAlloc (host_returning NULL) 8 [] =
     (Inr \<lparr>bs_header = NULL, bs_payload = 4, bs_length = 8\<rparr>, [Allocate 12])
   \<and> internalAllocateArray 4 example_layout FunctionContext DoZero ThrowBadAlloc
       (host_returning NULL) [3, 4] [] = (Inl NullDereference, [Allocate 88])
   \<and> internalAllocateArray 4 example_layout FunctionContext DoZero ReturnNULL
       (host_returning NULL) [3, 4] [] = (Inl NullDereference, [Allocate 88])
   \<and> allocate FunctionContext DoZero ReturnNULL (host_raising 1) 8 [] =
     (Inl (HostSignal 1), [Allocate 8])"
  by (simp add: run_defs)

subsection \<open>The policy parameters\<close>


text \<open>
  Over the callee that reads its tag, a caller asking for \<^const>\<open>DoNotZero\<close>
  has the request made under \<^const>\<open>DoZero\<close>: 12 and 88 bytes, not 13 and 89.
\<close>

lemma builders_pass_DoZero:
  "allocateByteString_via allocate_reading_ZM 4 FunctionContext DoNotZero ThrowBadAlloc
      (host_returning 4096) 8 [] =
     (Inr \<lparr>bs_header = 4096, bs_payload = 4100, bs_length = 8\<rparr>, [Allocate 12])
   \<and> snd (internalAllocateArray_via allocate_reading_ZM 4 example_layout FunctionContext
            DoNotZero ThrowBadAlloc (host_returning 4096) [3, 4] []) = [Allocate 88]"
  by (simp add: run_defs allocateByteString_via_def internalAllocateArray_via_def
      allocate_reading_ZM_def)


end
